theory Spec2Isabelle
  imports Complex_Main "HOL-Library.Word"
begin

unbundle bit_operations_syntax

section \<open>Data model of the ZeroErr arm interface\<close>

text \<open>
  The embedding follows \<^verbatim>\<open>zeroerr_interface.cpp\<close>. Member names of the C++ class end
  in an underscore (\<^verbatim>\<open>joint_no_\<close>, \<^verbatim>\<open>stamp_\<close>, \<^verbatim>\<open>state_transition_\<close>, ...); the
  underscore is dropped here because a trailing underscore is not a legal constant name.
  The class header is not part of the sources, so the constants and types it declares are
  either parameters of the model or written down from the specification, and marked so.
\<close>

type_synonym uint16_t = "16 word"
type_synonym int32_t = "32 word"

text \<open>
  Modelled from the spec: the header declaring the enum \<^verbatim>\<open>DriveState\<close> is missing; the
  eight values are those of the data model (section 3) and of the branches of
  \<^verbatim>\<open>state_transition_\<close>.
\<close>

datatype DriveState =
    NOT_READY
  | SWITCH_ON_DISABLED
  | READY
  | SWITCHED_ON
  | OPERATION_ENABLED
  | QUICK_STOP_ACTIVE
  | FAULT_REACTION_ACTIVE
  | FAULT

text \<open>
  Modelled from the spec: \<^verbatim>\<open>NUM_JOINTS\<close> is defined in the missing header; the spec fixes
  it to 6, and \<^verbatim>\<open>check_slave_config_states_\<close> compares the cursor with the literal 6.
\<close>

definition NUM_JOINTS :: nat where
  "NUM_JOINTS = 6"

text \<open>The severities of the rclcpp logging macros, and one logged call: format and arguments.\<close>

datatype severity = DEBUG | INFO | WARN | ERROR | FATAL

datatype log_arg = ArgInt int | ArgStr string

datatype log_entry = Log severity string "log_arg list"

text \<open>The calls made on the EtherCAT master and the domain, in the order they are made.\<close>

datatype bus_call =
    master_receive
  | domain_process
  | master_reset
  | domain_queue
  | master_send

text \<open>What can go wrong in the C++ where HOL would silently return a value.\<close>

datatype fault = OutOfBounds | DivByZero

text \<open>\<^verbatim>\<open>ec_slave_config_state_t\<close> of the EtherCAT master library (three bit fields).\<close>

record ec_slave_config_state_t =
  online :: bool
  operational :: bool
  al_state :: nat

text \<open>
  The process data domain: per joint a control word, a status word, a target position and
  an actual position, each at its own registered offset. The byte layout is abstracted to
  four arrays indexed by the joint.
\<close>

record process_data =
  ctrl_word :: "uint16_t list"
  status_word :: "uint16_t list"
  target_pos :: "int32_t list"
  actual_pos :: "int32_t list"

text \<open>
  The members of \<^verbatim>\<open>ZeroErrInterface\<close> that the modelled functions read or write, and
  what the node has done to its environment: the log, the bus calls in order, and the
  images of the process data domain handed to \<^verbatim>\<open>ecrt_domain_queue\<close> and put on the wire
  by \<^verbatim>\<open>ecrt_master_send\<close>, in order.
\<close>

record node =
  domain_pd :: process_data
  driveState :: "DriveState list"
  joint_no :: nat
  joint_ec_states :: "ec_slave_config_state_t list"
  joints_OP :: bool
  joints_op_enabled :: bool
  counter :: nat
  stamp :: real
  joint_commands :: "int32_t list"
  joint_states_enc_counts :: "int32_t list"
  logger :: "log_entry list"
  bus :: "bus_call list"
  queued :: "process_data list"
  sent :: "process_data list"

text \<open>Every per-joint container has \<^verbatim>\<open>NUM_JOINTS\<close> entries.\<close>

definition wf_node :: "node \<Rightarrow> bool" where
  "wf_node s \<longleftrightarrow>
     length (ctrl_word (domain_pd s)) = NUM_JOINTS \<and>
     length (status_word (domain_pd s)) = NUM_JOINTS \<and>
     length (target_pos (domain_pd s)) = NUM_JOINTS \<and>
     length (actual_pos (domain_pd s)) = NUM_JOINTS \<and>
     length (driveState s) = NUM_JOINTS \<and>
     length (joint_ec_states s) = NUM_JOINTS \<and>
     length (joint_commands s) = NUM_JOINTS \<and>
     length (joint_states_enc_counts s) = NUM_JOINTS"

section \<open>Primitive effects\<close>

definition RCLCPP_INFO :: "string \<Rightarrow> log_arg list \<Rightarrow> node \<Rightarrow> node" where
  "RCLCPP_INFO fmt as s = s\<lparr>logger := logger s @ [Log INFO fmt as]\<rparr>"

definition RCLCPP_ERROR :: "string \<Rightarrow> log_arg list \<Rightarrow> node \<Rightarrow> node" where
  "RCLCPP_ERROR fmt as s = s\<lparr>logger := logger s @ [Log ERROR fmt as]\<rparr>"

text \<open>\<^verbatim>\<open>EC_WRITE_U16(domain_pd + ctrl_word_offset[j], v)\<close>\<close>

definition write_ctrl_word :: "nat \<Rightarrow> uint16_t \<Rightarrow> node \<Rightarrow> node" where
  "write_ctrl_word j v s =
     s\<lparr>domain_pd := (domain_pd s)\<lparr>ctrl_word := (ctrl_word (domain_pd s))[j := v]\<rparr>\<rparr>"

text \<open>\<^verbatim>\<open>EC_WRITE_S32(domain_pd + target_pos_offset[j], v)\<close>\<close>

definition write_target_pos :: "nat \<Rightarrow> int32_t \<Rightarrow> node \<Rightarrow> node" where
  "write_target_pos j v s =
     s\<lparr>domain_pd := (domain_pd s)\<lparr>target_pos := (target_pos (domain_pd s))[j := v]\<rparr>\<rparr>"

text \<open>\<^verbatim>\<open>driveState[j] = d\<close>\<close>

definition set_driveState :: "nat \<Rightarrow> DriveState \<Rightarrow> node \<Rightarrow> node" where
  "set_driveState j d s = s\<lparr>driveState := (driveState s)[j := d]\<rparr>"

definition call_bus :: "bus_call \<Rightarrow> node \<Rightarrow> node" where
  "call_bus c s = s\<lparr>bus := bus s @ [c]\<rparr>"

section \<open>The CiA402 drive state machine\<close>

text \<open>
  \<^verbatim>\<open>state_transition_\<close> in two parts. The first (\<^verbatim>\<open>CiA 402 PDS FSA commissioning\<close>
  in the source) reads the four fields of the joint under the cursor and runs the chain of
  masked comparisons in the order of the source.
\<close>

definition pds_fsa :: "node \<Rightarrow> node" where
  "pds_fsa s =
    (let j = joint_no s;
         current_pos = actual_pos (domain_pd s) ! j;
         target = target_pos (domain_pd s) ! j;
         sw = status_word (domain_pd s) ! j;
         cw = ctrl_word (domain_pd s) ! j
     in
      (if sw AND 0b01001111 = 0b00000000 then
         (if driveState s ! j \<noteq> NOT_READY
          then RCLCPP_INFO '' J%d State: Not ready'' [ArgInt (int j)]
                 (set_driveState j NOT_READY s)
          else s)
       else if sw AND 0b01001111 = 0b01000000 then
         (let s1 = write_ctrl_word j ((cw AND 0b01111110) OR 0b00000110) s in
          if driveState s1 ! j \<noteq> SWITCH_ON_DISABLED
          then RCLCPP_INFO '' J%d State: Switch on disabled'' [ArgInt (int j)]
                 (set_driveState j SWITCH_ON_DISABLED s1)
          else s1)
       else if sw AND 0b01101111 = 0b00100001 then
         (let s1 = write_ctrl_word j ((cw AND 0b01110111) OR 0b00000111) s in
          if driveState s1 ! j \<noteq> READY
          then RCLCPP_INFO '' J%d State: Ready to switch on'' [ArgInt (int j)]
                 (set_driveState j READY s1)
          else s1)
       else if sw AND 0b01101111 = 0b00100011 then
         (let s1 = write_ctrl_word j ((cw AND 0b01111111) OR 0b00001111) s in
          if driveState s1 ! j \<noteq> SWITCHED_ON
          then
            (let s2 = RCLCPP_INFO '' J%d State: Switched on'' [ArgInt (int j)]
                        (set_driveState j SWITCHED_ON s1)
             in if current_pos \<noteq> target
                then write_target_pos j current_pos
                       (RCLCPP_ERROR ''target pos != current pos, fixing...\<newline>'' [] s2)
                else s2)
          else s1)
       else if sw AND 0b01101111 = 0b00100111 then
         (let s1 =
            (if driveState s ! j \<noteq> OPERATION_ENABLED
             then RCLCPP_INFO '' J%d State: Operation enabled!'' [ArgInt (int j)]
                    (set_driveState j OPERATION_ENABLED s)
             else s)
          in s1\<lparr>joint_no := joint_no s1 + 1\<rparr>)
       else if sw AND 0b01101111 = 0b00000111 then
         RCLCPP_INFO '' J%d State: Quick stop active'' [ArgInt (int j)]
           (set_driveState j QUICK_STOP_ACTIVE
             (write_ctrl_word j ((cw AND 0b01111111) OR 0b00001111) s))
       else if sw AND 0b01001111 = 0b00001111 then
         RCLCPP_INFO '' J%d State: Fault reaction active'' [ArgInt (int j)]
           (set_driveState j FAULT_REACTION_ACTIVE
             (write_ctrl_word j 0x0080 s))
       else if sw AND 0b01001111 = 0b00001000 then
         (let s1 = write_ctrl_word j ((cw AND 0b11111111) OR 0b10000000) s in
          if driveState s1 ! j \<noteq> FAULT
          then RCLCPP_INFO '' J%d State: Fault (0x%x)'' [ArgInt (int j), ArgInt (uint sw)]
                 (set_driveState j FAULT s1)
          else s1)
       else s))"

text \<open>
  The second part reports whether the cursor has passed the last joint, and resets it then.
  The arrays are indexed by the cursor: a cursor outside them is the fault \<open>OutOfBounds\<close>.
\<close>

definition state_transition :: "node \<Rightarrow> fault + (bool \<times> node)" where
  "state_transition s =
    (if \<not> joint_no s < NUM_JOINTS then Inl OutOfBounds
     else
       let s' = pds_fsa s
       in if joint_no s' = NUM_JOINTS
          then Inr (True, s'\<lparr>joint_no := 0\<rparr>)
          else Inr (False, s'))"

section \<open>The slave operational gate\<close>

text \<open>
  \<^verbatim>\<open>check_slave_config_states_\<close>. The argument \<open>slaves\<close> is what
  \<^verbatim>\<open>ecrt_slave_config_state\<close> reports for the slave configuration of each joint at the
  time of the call; the function asks for the joint under the cursor only.
\<close>

definition check_slave_config_states ::
    "(nat \<Rightarrow> ec_slave_config_state_t) \<Rightarrow> node \<Rightarrow> fault + (bool \<times> node)" where
  "check_slave_config_states slaves s =
    (let j = joint_no s in
     if \<not> j < NUM_JOINTS then Inl OutOfBounds
     else
       let st = slaves j;
           s1 = (if operational st \<noteq> operational (joint_ec_states s ! j)
                 then RCLCPP_INFO ''J%d: %soperational.''
                        [ArgInt (int j), ArgStr (if operational st then [] else ''Not '')] s
                 else s);
           s2 = s1\<lparr>joint_ec_states := (joint_ec_states s1)[j := st]\<rparr>;
           s3 = (if operational (joint_ec_states s2 ! j)
                 then s2\<lparr>joint_no := joint_no s2 + 1\<rparr>
                 else s2)
       in if joint_no s3 = 6
          then Inr (True, s3\<lparr>joint_no := 0\<rparr>)
          else Inr (False, s3))"

section \<open>The cyclic exchange loop\<close>

text \<open>
  What one run of \<^verbatim>\<open>cyclic_pdo_loop_\<close> takes from its environment: the input fields the
  received frame carries (status words and actual positions, for the receive at the top of
  the loop and for the one after a master reset), the slave configuration states, and the
  two readings of the clock (the one compared with the stamp and the one stored as the new
  stamp). \<^verbatim>\<open>now().seconds()\<close> is a double; it is modelled as a real number.
\<close>

record cycle_input =
  rx_status :: "uint16_t list"
  rx_actual :: "int32_t list"
  slave_states :: "nat \<Rightarrow> ec_slave_config_state_t"
  now_check :: real
  retry_status :: "uint16_t list"
  retry_actual :: "int32_t list"
  now_restart :: real

definition wf_input :: "cycle_input \<Rightarrow> bool" where
  "wf_input i \<longleftrightarrow>
     length (rx_status i) = NUM_JOINTS \<and> length (rx_actual i) = NUM_JOINTS \<and>
     length (retry_status i) = NUM_JOINTS \<and> length (retry_actual i) = NUM_JOINTS"

text \<open>
  The library calls. Receiving refreshes the fields the drives write; the fields the
  application writes stay as they are.
\<close>

definition ecrt_master_receive :: "uint16_t list \<Rightarrow> int32_t list \<Rightarrow> node \<Rightarrow> node" where
  "ecrt_master_receive sws aps s =
     call_bus master_receive
       (s\<lparr>domain_pd := (domain_pd s)\<lparr>status_word := sws, actual_pos := aps\<rparr>\<rparr>)"

definition ecrt_domain_process :: "node \<Rightarrow> node" where
  "ecrt_domain_process = call_bus domain_process"

definition ecrt_master_reset :: "node \<Rightarrow> node" where
  "ecrt_master_reset = call_bus master_reset"

text \<open>
  Queueing hands the domain as it is at the call to the master; sending puts the domain as
  it is at the call on the wire.
\<close>

definition ecrt_domain_queue :: "node \<Rightarrow> node" where
  "ecrt_domain_queue s = call_bus domain_queue (s\<lparr>queued := queued s @ [domain_pd s]\<rparr>)"

definition ecrt_master_send :: "node \<Rightarrow> node" where
  "ecrt_master_send s = call_bus master_send (s\<lparr>sent := sent s @ [domain_pd s]\<rparr>)"

text \<open>
  \<^verbatim>\<open>for (uint i = 0; i < NUM_JOINTS; i++)
    joint_states_enc_counts_[i] = EC_READ_S32(domain_pd + actual_pos_offset[i]);\<close>
\<close>

definition read_joint_states :: "node \<Rightarrow> node" where
  "read_joint_states s =
     s\<lparr>joint_states_enc_counts :=
         fold (\<lambda>i encs. encs[i := actual_pos (domain_pd s) ! i]) [0..<NUM_JOINTS]
           (joint_states_enc_counts s)\<rparr>"

text \<open>
  The once-a-second counter. \<open>period\<close> is \<^verbatim>\<open>CYCLIC_DATA_PERIOD.count()\<close>, fixed by the
  constructor from constants of the missing header; the integer division traps on 0.
\<close>

definition housekeeping :: "nat \<Rightarrow> node \<Rightarrow> fault + node" where
  "housekeeping period s =
     (if counter s \<noteq> 0 then Inr (s\<lparr>counter := counter s - 1\<rparr>)
      else if period = 0 then Inl DivByZero
      else Inr (s\<lparr>counter := 1000 div period\<rparr>))"

text \<open>
  \<^verbatim>\<open>if (joints_OP_) joints_op_enabled_ = state_transition_();
  else { joints_OP_ = check_slave_config_states_(); if (now - stamp_ >= 10) retry }\<close>
\<close>

definition gate_or_fsa :: "cycle_input \<Rightarrow> node \<Rightarrow> fault + node" where
  "gate_or_fsa i s =
     (if joints_OP s then
        (case state_transition s of
           Inl e \<Rightarrow> Inl e
         | Inr (r, s1) \<Rightarrow> Inr (s1\<lparr>joints_op_enabled := r\<rparr>))
      else
        (case check_slave_config_states (slave_states i) s of
           Inl e \<Rightarrow> Inl e
         | Inr (r, s1) \<Rightarrow>
             (let s2 = s1\<lparr>joints_OP := r\<rparr> in
              if now_check i - stamp s2 \<ge> 10 then
                Inr ((ecrt_domain_process
                       (ecrt_master_receive (retry_status i) (retry_actual i)
                         (ecrt_master_reset
                           (RCLCPP_INFO ''Not all joints reached OP, retrying'' [] s2))))
                     \<lparr>stamp := now_restart i\<rparr>)
              else Inr s2)))"

text \<open>
  \<^verbatim>\<open>if (joints_op_enabled_) { RCLCPP_INFO(..., joint_commands_[5]);
    for (uint i = 0; i < NUM_JOINTS; i++)
      EC_WRITE_S32(domain_pd + target_pos_offset[i], joint_commands_[i]); }\<close>
\<close>

definition write_targets :: "node \<Rightarrow> node" where
  "write_targets s =
     (if joints_op_enabled s then
        fold (\<lambda>i s'. write_target_pos i (joint_commands s' ! i) s') [0..<NUM_JOINTS]
          (RCLCPP_INFO ''Writing target pos %d'' [ArgInt (sint (joint_commands s ! 5))] s)
      else s)"

text \<open>\<^verbatim>\<open>cyclic_pdo_loop_\<close>, one firing of the timer.\<close>

definition cyclic_pdo_loop :: "nat \<Rightarrow> cycle_input \<Rightarrow> node \<Rightarrow> fault + node" where
  "cyclic_pdo_loop period i s =
     (case housekeeping period
             (read_joint_states
               (ecrt_domain_process (ecrt_master_receive (rx_status i) (rx_actual i) s))) of
        Inl e \<Rightarrow> Inl e
      | Inr s1 \<Rightarrow>
          (case gate_or_fsa i s1 of
             Inl e \<Rightarrow> Inl e
           | Inr s2 \<Rightarrow> Inr (ecrt_master_send (ecrt_domain_queue (write_targets s2)))))"

text \<open>The timer firing repeatedly, one input per firing.\<close>

fun run_cycles :: "nat \<Rightarrow> cycle_input list \<Rightarrow> node \<Rightarrow> fault + node" where
  "run_cycles period [] s = Inr s"
| "run_cycles period (i # is) s =
     (case cyclic_pdo_loop period i s of
        Inl e \<Rightarrow> Inl e
      | Inr s' \<Rightarrow> run_cycles period is s')"

section \<open>The unit converter\<close>

text \<open>
  \<^verbatim>\<open>abs\<close> on a 32-bit two's complement integer. The C standard leaves \<^verbatim>\<open>abs(INT_MIN)\<close>
  undefined; the negation written out on the machine word gives \<^verbatim>\<open>INT_MIN\<close> again.
\<close>

definition abs_int32 :: "int32_t \<Rightarrow> int32_t" where
  "abs_int32 c = (if c <s 0 then - c else c)"

text \<open>The C remainder, which truncates towards zero.\<close>

definition c_rem :: "int \<Rightarrow> int \<Rightarrow> int" where
  "c_rem a b = sgn a * (\<bar>a\<bar> mod \<bar>b\<bar>)"

text \<open>
  Modelled from the spec: the macro \<^verbatim>\<open>COUNT_TO_RAD\<close> is defined in the missing header;
  section 4.5 says it multiplies by a fixed scale constant. The double is modelled as a
  real number.
\<close>

definition COUNT_TO_RAD :: "real \<Rightarrow> real \<Rightarrow> real" where
  "COUNT_TO_RAD scale x = x * scale"

text \<open>
  \<^verbatim>\<open>convert_count_to_rad_\<close>. \<open>MAX_COUNT\<close> is a constant of the missing header and a
  parameter here; a remainder by zero is a fault.
\<close>

definition convert_count_to_rad :: "int \<Rightarrow> real \<Rightarrow> int32_t \<Rightarrow> fault + real" where
  "convert_count_to_rad MAX_COUNT scale counts =
     (if (if 0 <s counts then sint counts > MAX_COUNT
          else sint (abs_int32 counts) > MAX_COUNT)
      then
        (if MAX_COUNT = 0 then Inl DivByZero
         else
           let scaled_counts =
                 (if 0 <s counts then MAX_COUNT - c_rem (sint counts) MAX_COUNT
                  else - (MAX_COUNT - c_rem (sint (abs_int32 counts)) MAX_COUNT))
           in Inr (COUNT_TO_RAD scale (real_of_int scaled_counts)))
      else Inr (COUNT_TO_RAD scale (real_of_int (sint counts))))"

section \<open>The command callback\<close>

text \<open>
  \<^verbatim>\<open>for (uint i = 0; i < arm_cmd->position.size(); i++)
    joint_commands_[i] = RAD_TO_COUNT(arm_cmd->position[i]);\<close>
  The macro \<^verbatim>\<open>RAD_TO_COUNT\<close> of the missing header is a parameter. A write past the
  end of \<^verbatim>\<open>joint_commands_\<close> is the fault \<open>OutOfBounds\<close>.
\<close>

function arm_cmd_loop ::
    "(real \<Rightarrow> int32_t) \<Rightarrow> real list \<Rightarrow> nat \<Rightarrow> int32_t list \<Rightarrow> fault + int32_t list" where
  "arm_cmd_loop RAD_TO_COUNT position i cmds =
     (if i < length position then
        (if i < length cmds
         then arm_cmd_loop RAD_TO_COUNT position (i + 1) (cmds[i := RAD_TO_COUNT (position ! i)])
         else Inl OutOfBounds)
      else Inr cmds)"
  by pat_completeness auto
termination
  by (relation "measure (\<lambda>(R, position, i, cmds). length position - i)") auto

definition arm_cmd_cb :: "(real \<Rightarrow> int32_t) \<Rightarrow> real list \<Rightarrow> node \<Rightarrow> fault + node" where
  "arm_cmd_cb RAD_TO_COUNT position s =
     (case arm_cmd_loop RAD_TO_COUNT position 0 (joint_commands s) of
        Inl e \<Rightarrow> Inl e
      | Inr cmds \<Rightarrow> Inr (s\<lparr>joint_commands := cmds\<rparr>))"

section \<open>The status word table and test drivers\<close>

text \<open>
  The eight masked comparisons of \<^verbatim>\<open>state_transition_\<close>, in the order of the chain:
  mask, pattern, and the state the branch records.
\<close>

definition status_rows :: "(uint16_t \<times> uint16_t \<times> DriveState) list" where
  "status_rows =
    [(0b01001111, 0b00000000, NOT_READY),
     (0b01001111, 0b01000000, SWITCH_ON_DISABLED),
     (0b01101111, 0b00100001, READY),
     (0b01101111, 0b00100011, SWITCHED_ON),
     (0b01101111, 0b00100111, OPERATION_ENABLED),
     (0b01101111, 0b00000111, QUICK_STOP_ACTIVE),
     (0b01001111, 0b00001111, FAULT_REACTION_ACTIVE),
     (0b01001111, 0b00001000, FAULT)]"

fun row_matches :: "uint16_t \<Rightarrow> uint16_t \<times> uint16_t \<times> DriveState \<Rightarrow> bool" where
  "row_matches w (m, p, d) \<longleftrightarrow> w AND m = p"

text \<open>The drive of joint \<open>j\<close> reporting the status word \<open>w\<close>.\<close>

definition set_status :: "nat \<Rightarrow> uint16_t \<Rightarrow> node \<Rightarrow> node" where
  "set_status j w s =
     s\<lparr>domain_pd := (domain_pd s)\<lparr>status_word := (status_word (domain_pd s))[j := w]\<rparr>\<rparr>"

text \<open>
  Feeding the state machine one status word per step for joint \<open>j\<close>, and recording after
  each step the drive state stored for the joint and its control word in the domain.
\<close>

fun drive_trace ::
    "nat \<Rightarrow> node \<Rightarrow> uint16_t list \<Rightarrow> fault + (DriveState \<times> uint16_t) list" where
  "drive_trace j s [] = Inr []"
| "drive_trace j s (w # ws) =
     (case state_transition (set_status j w s) of
        Inl e \<Rightarrow> Inl e
      | Inr (r, s') \<Rightarrow>
          (case drive_trace j s' ws of
             Inl e \<Rightarrow> Inl e
           | Inr obs \<Rightarrow> Inr ((driveState s' ! j, ctrl_word (domain_pd s') ! j) # obs)))"

text \<open>
  A node at startup, for the examples: the containers zeroed as the constructor does, the
  clock reading 0 taken as the stamp, and the members whose initial values the missing
  header fixes taken as NOT_READY, cursor 0 and flags false.
\<close>

definition startup :: node where
  "startup =
     \<lparr>domain_pd =
        \<lparr>ctrl_word = [0, 0, 0, 0, 0, 0], status_word = [0, 0, 0, 0, 0, 0],
         target_pos = [0, 0, 0, 0, 0, 0], actual_pos = [0, 0, 0, 0, 0, 0]\<rparr>,
      driveState = [NOT_READY, NOT_READY, NOT_READY, NOT_READY, NOT_READY, NOT_READY],
      joint_no = 0,
      joint_ec_states = replicate 6 \<lparr>online = False, operational = False, al_state = 0\<rparr>,
      joints_OP = False,
      joints_op_enabled = False,
      counter = 0,
      stamp = 0,
      joint_commands = [0, 0, 0, 0, 0, 0],
      joint_states_enc_counts = [0, 0, 0, 0, 0, 0],
      logger = [],
      bus = [],
      queued = [],
      sent = []\<rparr>"

text \<open>
  Calling the gate once per element of a list of bus reports, collecting what it returns.
\<close>

fun gate_run ::
    "(nat \<Rightarrow> ec_slave_config_state_t) list \<Rightarrow> node \<Rightarrow> fault + (bool list \<times> node)" where
  "gate_run [] s = Inr ([], s)"
| "gate_run (r # rs) s =
     (case check_slave_config_states r s of
        Inl e \<Rightarrow> Inl e
      | Inr (b, s') \<Rightarrow>
          (case gate_run rs s' of
             Inl e \<Rightarrow> Inl e
           | Inr (bs, s'') \<Rightarrow> Inr (b # bs, s'')))"

text \<open>Bus reports: every slave operational, no slave operational.\<close>

definition all_operational :: "nat \<Rightarrow> ec_slave_config_state_t" where
  "all_operational j = \<lparr>online = True, operational = True, al_state = 8\<rparr>"

definition none_operational :: "nat \<Rightarrow> ec_slave_config_state_t" where
  "none_operational j = \<lparr>online = True, operational = False, al_state = 2\<rparr>"

text \<open>
  A cycle in which the drives report nothing, no slave is operational, and the clock reads
  10 seconds after the stamp of \<open>startup\<close>.
\<close>

definition timeout_input :: cycle_input where
  "timeout_input =
     \<lparr>rx_status = [0, 0, 0, 0, 0, 0], rx_actual = [0, 0, 0, 0, 0, 0],
      slave_states = none_operational, now_check = 10,
      retry_status = [0, 0, 0, 0, 0, 0], retry_actual = [0, 0, 0, 0, 0, 0],
      now_restart = 10\<rparr>"

text \<open>The same cycle with the clock reading 3 seconds after the stamp of \<open>startup\<close>.\<close>

definition quiet_input :: cycle_input where
  "quiet_input = timeout_input\<lparr>now_check := 3\<rparr>"

text \<open>The severity of a logged call.\<close>

fun level :: "log_entry \<Rightarrow> severity" where
  "level (Log l fmt as) = l"

text \<open>
  Joint 0 is READY under the cursor with a target position of 500 counts in the domain; the
  next frame carries the SWITCHED_ON pattern and an actual position of 1000 counts.
\<close>

definition switch_on_node :: node where
  "switch_on_node =
     startup\<lparr>domain_pd :=
               \<lparr>ctrl_word = [7, 0, 0, 0, 0, 0], status_word = [0x21, 0, 0, 0, 0, 0],
                target_pos = [500, 0, 0, 0, 0, 0], actual_pos = [1000, 0, 0, 0, 0, 0]\<rparr>,
             driveState := [READY, NOT_READY, NOT_READY, NOT_READY, NOT_READY, NOT_READY],
             joints_OP := True\<rparr>"

definition switch_on_input :: cycle_input where
  "switch_on_input =
     \<lparr>rx_status = [0x23, 0, 0, 0, 0, 0], rx_actual = [1000, 0, 0, 0, 0, 0],
      slave_states = all_operational, now_check = 1,
      retry_status = [0x23, 0, 0, 0, 0, 0], retry_actual = [1000, 0, 0, 0, 0, 0],
      now_restart = 1\<rparr>"

text \<open>
  Steady state: the sweep has just completed, every joint is OPERATION_ENABLED, the cursor
  is back at joint 0, and the command callback has stored new commands. Every frame reports
  OPERATION_ENABLED for all six joints.
\<close>

definition steady :: node where
  "steady =
     startup\<lparr>domain_pd :=
               \<lparr>ctrl_word = [15, 15, 15, 15, 15, 15],
                status_word = [0x27, 0x27, 0x27, 0x27, 0x27, 0x27],
                target_pos = [0, 0, 0, 0, 0, 0], actual_pos = [0, 0, 0, 0, 0, 0]\<rparr>,
             driveState := [OPERATION_ENABLED, OPERATION_ENABLED, OPERATION_ENABLED,
                            OPERATION_ENABLED, OPERATION_ENABLED, OPERATION_ENABLED],
             joints_OP := True,
             joints_op_enabled := True,
             joint_commands := [100, 200, 300, 400, 500, 600]\<rparr>"

definition steady_input :: cycle_input where
  "steady_input =
     \<lparr>rx_status = [0x27, 0x27, 0x27, 0x27, 0x27, 0x27], rx_actual = [0, 0, 0, 0, 0, 0],
      slave_states = all_operational, now_check = 1,
      retry_status = [0x27, 0x27, 0x27, 0x27, 0x27, 0x27], retry_actual = [0, 0, 0, 0, 0, 0],
      now_restart = 1\<rparr>"

definition targets_and_commands :: "node \<Rightarrow> int32_t list \<times> int32_t list" where
  "targets_and_commands s = (target_pos (domain_pd s), joint_commands s)"

text \<open>
  Joint 0 already recorded as QUICK_STOP_ACTIVE, FAULT_REACTION_ACTIVE and FAULT, with the
  status word of the same state in the domain; and what a step is observed by: the state
  recorded for joint 0 and the log.
\<close>

definition quick_stop_node :: node where
  "quick_stop_node =
     startup\<lparr>domain_pd := (domain_pd startup)\<lparr>status_word := [0x07, 0, 0, 0, 0, 0]\<rparr>,
             driveState := [QUICK_STOP_ACTIVE, NOT_READY, NOT_READY, NOT_READY, NOT_READY,
                            NOT_READY],
             joints_OP := True\<rparr>"

definition fault_reaction_node :: node where
  "fault_reaction_node =
     startup\<lparr>domain_pd := (domain_pd startup)\<lparr>status_word := [0x0F, 0, 0, 0, 0, 0]\<rparr>,
             driveState := [FAULT_REACTION_ACTIVE, NOT_READY, NOT_READY, NOT_READY, NOT_READY,
                            NOT_READY],
             joints_OP := True\<rparr>"

definition fault_node :: node where
  "fault_node =
     startup\<lparr>domain_pd := (domain_pd startup)\<lparr>status_word := [0x08, 0, 0, 0, 0, 0]\<rparr>,
             driveState := [FAULT, NOT_READY, NOT_READY, NOT_READY, NOT_READY, NOT_READY],
             joints_OP := True\<rparr>"

definition state_and_log :: "bool \<times> node \<Rightarrow> DriveState \<times> log_entry list" where
  "state_and_log rs = (driveState (snd rs) ! 0, logger (snd rs))"

text \<open>A stand-in for \<^verbatim>\<open>RAD_TO_COUNT\<close> in examples: 1000 counts per radian.\<close>

definition to_count :: "real \<Rightarrow> int32_t" where
  "to_count x = word_of_int \<lfloor>x * 1000\<rfloor>"

section \<open>Properties of the state machine\<close>

lemmas effect_defs =
  RCLCPP_INFO_def RCLCPP_ERROR_def write_ctrl_word_def write_target_pos_def set_driveState_def

lemma narrow_mask:
  fixes w :: uint16_t
  shows "w AND 0b01101111 = p \<Longrightarrow> w AND 0b01001111 = p AND 0b01001111"
proof -
  assume a: "w AND 0b01101111 = p"
  have "(w AND 0b01101111) AND 0b01001111 = w AND 0b01001111"
    by (simp add: and.assoc)
  with a show ?thesis by simp
qed

text \<open>
  The table is the chain of the source: a status word that matches a row makes
  \<^verbatim>\<open>state_transition_\<close> record the state of that row for the joint under the cursor.
\<close>

lemma pds_fsa_records_row:
  fixes s :: node
  defines "w \<equiv> status_word (domain_pd s) ! joint_no s"
  assumes j: "joint_no s < length (driveState s)"
  shows "w AND 0b01001111 = 0b00000000 \<Longrightarrow> driveState (pds_fsa s) ! joint_no s = NOT_READY"
    and "w AND 0b01001111 = 0b01000000 \<Longrightarrow> driveState (pds_fsa s) ! joint_no s = SWITCH_ON_DISABLED"
    and "w AND 0b01101111 = 0b00100001 \<Longrightarrow> driveState (pds_fsa s) ! joint_no s = READY"
    and "w AND 0b01101111 = 0b00100011 \<Longrightarrow> driveState (pds_fsa s) ! joint_no s = SWITCHED_ON"
    and "w AND 0b01101111 = 0b00100111 \<Longrightarrow> driveState (pds_fsa s) ! joint_no s = OPERATION_ENABLED"
    and "w AND 0b01101111 = 0b00000111 \<Longrightarrow> driveState (pds_fsa s) ! joint_no s = QUICK_STOP_ACTIVE"
    and "w AND 0b01001111 = 0b00001111 \<Longrightarrow> driveState (pds_fsa s) ! joint_no s = FAULT_REACTION_ACTIVE"
    and "w AND 0b01001111 = 0b00001000 \<Longrightarrow> driveState (pds_fsa s) ! joint_no s = FAULT"
  using j narrow_mask [of w "0b00100001"] narrow_mask [of w "0b00100011"]
    narrow_mask [of w "0b00100111"] narrow_mask [of w "0b00000111"]
  by (auto simp add: w_def pds_fsa_def Let_def effect_defs)

lemma pds_fsa_follows_rows:
  assumes "joint_no s < length (driveState s)"
    and "(m, p, d) \<in> set status_rows"
    and "row_matches (status_word (domain_pd s) ! joint_no s) (m, p, d)"
  shows "driveState (pds_fsa s) ! joint_no s = d"
  using assms(2,3) pds_fsa_records_row [OF assms(1)]
  by (auto simp add: status_rows_def)

text \<open>
  C9. For every 16-bit status word at most one of the eight (mask, pattern) rows of the
  chain in \<^verbatim>\<open>state_transition_\<close> matches: the rows are mutually exclusive.
\<close>

theorem status_rows_exclusive:
  "length (filter (row_matches w) status_rows) \<le> 1"
  using narrow_mask [of w "0b00100001"] narrow_mask [of w "0b00100011"]
    narrow_mask [of w "0b00100111"] narrow_mask [of w "0b00000111"]
  by (auto simp add: status_rows_def)

lemma feed_not_ready:
  assumes "wf_node s" "joint_no s = j" "j < NUM_JOINTS" "ctrl_word (domain_pd s) ! j = c"
  shows "\<exists>s'. state_transition (set_status j 0x00 s) = Inr (False, s') \<and> wf_node s' \<and> joint_no s' = j \<and>
           driveState s' ! j = NOT_READY \<and> ctrl_word (domain_pd s') ! j = c"
  using assms
  by (auto simp add: state_transition_def pds_fsa_def set_status_def Let_def NUM_JOINTS_def effect_defs wf_node_def)

lemma feed_switch_on_disabled:
  assumes "wf_node s" "joint_no s = j" "j < NUM_JOINTS" "ctrl_word (domain_pd s) ! j = c"
  shows "\<exists>s'. state_transition (set_status j 0x40 s) = Inr (False, s') \<and> wf_node s' \<and> joint_no s' = j \<and>
           driveState s' ! j = SWITCH_ON_DISABLED \<and> ctrl_word (domain_pd s') ! j = (c AND 0b01111110) OR 0b00000110"
  using assms
  by (auto simp add: state_transition_def pds_fsa_def set_status_def Let_def NUM_JOINTS_def effect_defs wf_node_def)

lemma feed_ready:
  assumes "wf_node s" "joint_no s = j" "j < NUM_JOINTS" "ctrl_word (domain_pd s) ! j = c"
  shows "\<exists>s'. state_transition (set_status j 0x21 s) = Inr (False, s') \<and> wf_node s' \<and> joint_no s' = j \<and>
           driveState s' ! j = READY \<and> ctrl_word (domain_pd s') ! j = (c AND 0b01110111) OR 0b00000111"
  using assms
  by (auto simp add: state_transition_def pds_fsa_def set_status_def Let_def NUM_JOINTS_def effect_defs wf_node_def)

lemma feed_switched_on:
  assumes "wf_node s" "joint_no s = j" "j < NUM_JOINTS" "ctrl_word (domain_pd s) ! j = c"
  shows "\<exists>s'. state_transition (set_status j 0x23 s) = Inr (False, s') \<and> wf_node s' \<and> joint_no s' = j \<and>
           driveState s' ! j = SWITCHED_ON \<and> ctrl_word (domain_pd s') ! j = (c AND 0b01111111) OR 0b00001111"
  using assms
  by (auto simp add: state_transition_def pds_fsa_def set_status_def Let_def NUM_JOINTS_def effect_defs wf_node_def)

lemma feed_operation_enabled:
  assumes "wf_node s" "joint_no s = j" "j < NUM_JOINTS" "ctrl_word (domain_pd s) ! j = c"
  shows "\<exists>r s'. state_transition (set_status j 0x27 s) = Inr (r, s') \<and>
           driveState s' ! j = OPERATION_ENABLED \<and> ctrl_word (domain_pd s') ! j = c"
  using assms
  by (auto simp add: state_transition_def pds_fsa_def set_status_def Let_def NUM_JOINTS_def effect_defs wf_node_def)

text \<open>
  C1. Joint \<open>j\<close> under the cursor, control word \<open>c\<close> in the domain: feeding the status
  words 0x00, 0x40, 0x21, 0x23, 0x27 on five consecutive steps records the states
  NOT_READY, SWITCH_ON_DISABLED, READY, SWITCHED_ON, OPERATION_ENABLED, and the control word
  after each step is the one of the table: unchanged, then
  \<open>(ctrl AND 0b01111110) OR 0b00000110\<close>, \<open>(ctrl AND 0b01110111) OR 0b00000111\<close>,
  \<open>(ctrl AND 0b01111111) OR 0b00001111\<close> of the word read at that step, then unchanged.
\<close>

theorem drive_bringup_sequence:
  assumes wf: "wf_node s" and j: "joint_no s = j" "j < NUM_JOINTS"
    and c: "ctrl_word (domain_pd s) ! j = c"
  shows "drive_trace j s [0x00, 0x40, 0x21, 0x23, 0x27] =
     Inr [(NOT_READY, c),
          (SWITCH_ON_DISABLED, (c AND 0b01111110) OR 0b00000110),
          (READY, (((c AND 0b01111110) OR 0b00000110) AND 0b01110111) OR 0b00000111),
          (SWITCHED_ON, (((((c AND 0b01111110) OR 0b00000110) AND 0b01110111) OR 0b00000111) AND 0b01111111) OR 0b00001111),
          (OPERATION_ENABLED, (((((c AND 0b01111110) OR 0b00000110) AND 0b01110111) OR 0b00000111) AND 0b01111111) OR 0b00001111)]"
proof -
  obtain s1 where s1: "state_transition (set_status j 0x00 s) = Inr (False, s1)"
      "wf_node s1" "joint_no s1 = j" "driveState s1 ! j = NOT_READY"
      "ctrl_word (domain_pd s1) ! j = c"
    using feed_not_ready [OF wf j c] by blast
  obtain s2 where s2: "state_transition (set_status j 0x40 s1) = Inr (False, s2)"
      "wf_node s2" "joint_no s2 = j" "driveState s2 ! j = SWITCH_ON_DISABLED"
      "ctrl_word (domain_pd s2) ! j = (c AND 0b01111110) OR 0b00000110"
    using feed_switch_on_disabled [OF s1(2) s1(3) j(2) s1(5)] by blast
  obtain s3 where s3: "state_transition (set_status j 0x21 s2) = Inr (False, s3)"
      "wf_node s3" "joint_no s3 = j" "driveState s3 ! j = READY"
      "ctrl_word (domain_pd s3) ! j = (((c AND 0b01111110) OR 0b00000110) AND 0b01110111) OR 0b00000111"
    using feed_ready [OF s2(2) s2(3) j(2) s2(5)] by blast
  obtain s4 where s4: "state_transition (set_status j 0x23 s3) = Inr (False, s4)"
      "wf_node s4" "joint_no s4 = j" "driveState s4 ! j = SWITCHED_ON"
      "ctrl_word (domain_pd s4) ! j = (((((c AND 0b01111110) OR 0b00000110) AND 0b01110111) OR 0b00000111) AND 0b01111111) OR 0b00001111"
    using feed_switched_on [OF s3(2) s3(3) j(2) s3(5)] by blast
  obtain r s5 where s5: "state_transition (set_status j 0x27 s4) = Inr (r, s5)"
      "driveState s5 ! j = OPERATION_ENABLED"
      "ctrl_word (domain_pd s5) ! j = (((((c AND 0b01111110) OR 0b00000110) AND 0b01110111) OR 0b00000111) AND 0b01111111) OR 0b00001111"
    using feed_operation_enabled [OF s4(2) s4(3) j(2) s4(5)] by blast
  show ?thesis
    by (simp add: s1 s2 s3 s4 s5)
qed

theorem drive_bringup_sequence_witness:
  "wf_node startup \<and> joint_no startup = 0 \<and> 0 < NUM_JOINTS \<and>
   ctrl_word (domain_pd startup) ! 0 = 0 \<and>
   drive_trace 0 startup [0x00, 0x40, 0x21, 0x23, 0x27] =
     Inr [(NOT_READY, 0), (SWITCH_ON_DISABLED, 6), (READY, 7), (SWITCHED_ON, 15),
          (OPERATION_ENABLED, 15)]"
proof -
  have h: "wf_node startup" "joint_no startup = 0" "0 < NUM_JOINTS"
      "ctrl_word (domain_pd startup) ! 0 = 0"
    by (simp_all add: startup_def wf_node_def NUM_JOINTS_def)
  show ?thesis
    using h drive_bringup_sequence [OF h] by simp
qed

section \<open>Frame and invariant lemmas\<close>

lemma pds_fsa_frame:
  "bus (pds_fsa s) = bus s"
  "stamp (pds_fsa s) = stamp s"
  "joints_OP (pds_fsa s) = joints_OP s"
  "joints_op_enabled (pds_fsa s) = joints_op_enabled s"
  "counter (pds_fsa s) = counter s"
  "joint_commands (pds_fsa s) = joint_commands s"
  "joint_states_enc_counts (pds_fsa s) = joint_states_enc_counts s"
  "joint_ec_states (pds_fsa s) = joint_ec_states s"
  "status_word (domain_pd (pds_fsa s)) = status_word (domain_pd s)"
  "actual_pos (domain_pd (pds_fsa s)) = actual_pos (domain_pd s)"
  by (simp_all add: pds_fsa_def Let_def effect_defs)

lemma pds_fsa_wf: "wf_node s \<Longrightarrow> wf_node (pds_fsa s)"
  by (simp add: pds_fsa_def Let_def effect_defs wf_node_def)

lemma pds_fsa_cursor:
  "joint_no (pds_fsa s) =
     (if status_word (domain_pd s) ! joint_no s AND 0b01101111 = 0b00100111
      then joint_no s + 1 else joint_no s)"
  using narrow_mask [of "status_word (domain_pd s) ! joint_no s" "0b00100111"]
  by (simp add: pds_fsa_def Let_def effect_defs)

lemma state_transition_total:
  "joint_no s < NUM_JOINTS \<Longrightarrow> \<exists>r s'. state_transition s = Inr (r, s')"
  by (auto simp add: state_transition_def Let_def)

lemma state_transition_frame:
  assumes "state_transition s = Inr (r, s')"
  shows "bus s' = bus s \<and> stamp s' = stamp s \<and> joints_OP s' = joints_OP s \<and>
         joints_op_enabled s' = joints_op_enabled s \<and> counter s' = counter s \<and>
         joint_commands s' = joint_commands s \<and>
         joint_states_enc_counts s' = joint_states_enc_counts s \<and>
         joint_ec_states s' = joint_ec_states s \<and>
         status_word (domain_pd s') = status_word (domain_pd s) \<and>
         actual_pos (domain_pd s') = actual_pos (domain_pd s)"
  using assms
  by (auto simp add: state_transition_def Let_def pds_fsa_frame split: if_splits)

lemma state_transition_inv:
  assumes "wf_node s" "state_transition s = Inr (r, s')"
  shows "wf_node s' \<and> joint_no s' < NUM_JOINTS"
  using assms pds_fsa_wf [of s]
  by (auto simp add: state_transition_def Let_def pds_fsa_cursor wf_node_def NUM_JOINTS_def split: if_splits)


lemma gate_step:
  assumes "wf_node s" "joint_no s = j" "j < NUM_JOINTS"
  shows "\<exists>s'. check_slave_config_states slaves s = Inr (operational (slaves j) \<and> j = 5, s') \<and>
           wf_node s' \<and>
           joint_no s' = (if operational (slaves j) then (if j = 5 then 0 else j + 1) else j) \<and>
           bus s' = bus s \<and> stamp s' = stamp s \<and> domain_pd s' = domain_pd s \<and>
           driveState s' = driveState s \<and> joints_op_enabled s' = joints_op_enabled s \<and>
           joints_OP s' = joints_OP s \<and> joint_commands s' = joint_commands s"
  using assms
  by (auto simp add: check_slave_config_states_def Let_def RCLCPP_INFO_def wf_node_def NUM_JOINTS_def)

lemma copy_loop:
  "length xs = n \<Longrightarrow> length ys = n \<Longrightarrow> m \<le> n \<Longrightarrow>
     fold (\<lambda>i encs. encs[i := ys ! i]) [0..<m] xs = take m ys @ drop m xs"
proof (induction m)
  case 0
  then show ?case by simp
next
  case (Suc m)
  then show ?case
    by (simp add: take_Suc_conv_app_nth upd_conv_take_nth_drop)
qed

lemma read_joint_states_eq:
  assumes "wf_node s"
  shows "read_joint_states s = s\<lparr>joint_states_enc_counts := actual_pos (domain_pd s)\<rparr>"
  using assms copy_loop [of "joint_states_enc_counts s" NUM_JOINTS "actual_pos (domain_pd s)" NUM_JOINTS]
  by (simp add: read_joint_states_def wf_node_def)


lemma target_loop:
  "length (target_pos (domain_pd s)) = n \<Longrightarrow> length (joint_commands s) = n \<Longrightarrow> m \<le> n \<Longrightarrow>
     fold (\<lambda>i s'. write_target_pos i (joint_commands s' ! i) s') [0..<m] s =
       s\<lparr>domain_pd := (domain_pd s)
           \<lparr>target_pos := take m (joint_commands s) @ drop m (target_pos (domain_pd s))\<rparr>\<rparr>"
proof (induction m)
  case 0
  then show ?case by simp
next
  case (Suc m)
  then show ?case
    by (simp add: write_target_pos_def take_Suc_conv_app_nth upd_conv_take_nth_drop)
qed

lemma write_targets_eq:
  assumes "wf_node s"
  shows "write_targets s =
     (if joints_op_enabled s
      then s\<lparr>domain_pd := (domain_pd s)\<lparr>target_pos := joint_commands s\<rparr>,
             logger := logger s @ [Log INFO ''Writing target pos %d''
                                     [ArgInt (sint (joint_commands s ! 5))]]\<rparr>
      else s)"
  using assms
    target_loop [of "RCLCPP_INFO ''Writing target pos %d'' [ArgInt (sint (joint_commands s ! 5))] s"
      NUM_JOINTS NUM_JOINTS]
  by (simp add: write_targets_def wf_node_def RCLCPP_INFO_def)

lemma housekeeping_eq:
  assumes "0 < period"
  shows "housekeeping period s =
     Inr (s\<lparr>counter := (if counter s \<noteq> 0 then counter s - 1 else 1000 div period)\<rparr>)"
  using assms by (simp add: housekeeping_def)

lemmas bus_defs = ecrt_master_receive_def ecrt_domain_process_def ecrt_master_reset_def
  ecrt_domain_queue_def ecrt_master_send_def call_bus_def

lemma cycle_prologue:
  assumes "wf_node s" "wf_input i" "0 < period"
  shows "\<exists>s1. housekeeping period (read_joint_states
            (ecrt_domain_process (ecrt_master_receive (rx_status i) (rx_actual i) s))) = Inr s1 \<and>
          wf_node s1 \<and> joint_no s1 = joint_no s \<and>
          bus s1 = bus s @ [master_receive, domain_process] \<and>
          status_word (domain_pd s1) = rx_status i \<and> actual_pos (domain_pd s1) = rx_actual i \<and>
          ctrl_word (domain_pd s1) = ctrl_word (domain_pd s) \<and>
          target_pos (domain_pd s1) = target_pos (domain_pd s) \<and>
          driveState s1 = driveState s \<and> joints_OP s1 = joints_OP s \<and>
          joints_op_enabled s1 = joints_op_enabled s \<and> stamp s1 = stamp s \<and>
          joint_commands s1 = joint_commands s \<and> logger s1 = logger s \<and>
          joint_ec_states s1 = joint_ec_states s \<and>
          queued s1 = queued s \<and> sent s1 = sent s"
proof -
  let ?r = "ecrt_domain_process (ecrt_master_receive (rx_status i) (rx_actual i) s)"
  have wf: "wf_node ?r"
    using assms(1,2) by (simp add: wf_node_def wf_input_def bus_defs)
  show ?thesis
    unfolding read_joint_states_eq [OF wf] housekeeping_eq [OF assms(3)]
    using assms(1,2)
    by (simp add: wf_node_def wf_input_def bus_defs)
qed

lemma gate_or_fsa_spec:
  assumes "wf_node s" "joint_no s < NUM_JOINTS" "wf_input i"
  shows "\<exists>s'. gate_or_fsa i s = Inr s' \<and> wf_node s' \<and> joint_no s' < NUM_JOINTS \<and>
           bus s' = bus s @ (if \<not> joints_OP s \<and> now_check i - stamp s \<ge> 10
                            then [master_reset, master_receive, domain_process] else []) \<and>
           stamp s' = (if \<not> joints_OP s \<and> now_check i - stamp s \<ge> 10
                       then now_restart i else stamp s)"
proof (cases "joints_OP s")
  case True
  obtain r s1 where st: "state_transition s = Inr (r, s1)"
    using state_transition_total [OF assms(2)] by blast
  show ?thesis
    using True st state_transition_frame [OF st] state_transition_inv [OF assms(1) st]
    by (simp add: gate_or_fsa_def wf_node_def)
next
  case False
  obtain s1 where st: "check_slave_config_states (slave_states i) s =
      Inr (operational (slave_states i (joint_no s)) \<and> joint_no s = 5, s1)"
    "wf_node s1" "bus s1 = bus s" "stamp s1 = stamp s"
    "joint_no s1 = (if operational (slave_states i (joint_no s))
       then (if joint_no s = 5 then 0 else joint_no s + 1) else joint_no s)"
    using gate_step [OF assms(1) refl assms(2), of "slave_states i"] by blast
  have "joint_no s1 < NUM_JOINTS"
    using st(5) assms(2) by (auto simp add: NUM_JOINTS_def)
  then show ?thesis
    using False st(1-4) assms(3)
    by (simp add: gate_or_fsa_def Let_def wf_node_def wf_input_def bus_defs RCLCPP_INFO_def)
qed

lemma cyclic_pdo_loop_spec:
  assumes "wf_node s" "joint_no s < NUM_JOINTS" "wf_input i" "0 < period"
  shows "\<exists>s'. cyclic_pdo_loop period i s = Inr s' \<and> wf_node s' \<and> joint_no s' < NUM_JOINTS \<and>
           bus s' = bus s @ [master_receive, domain_process] @
                    (if \<not> joints_OP s \<and> now_check i - stamp s \<ge> 10
                     then [master_reset, master_receive, domain_process] else []) @
                    [domain_queue, master_send] \<and>
           stamp s' = (if \<not> joints_OP s \<and> now_check i - stamp s \<ge> 10
                       then now_restart i else stamp s)"
proof -
  obtain s1 where s1: "housekeeping period (read_joint_states
            (ecrt_domain_process (ecrt_master_receive (rx_status i) (rx_actual i) s))) = Inr s1"
      "wf_node s1" "joint_no s1 = joint_no s" "bus s1 = bus s @ [master_receive, domain_process]"
      "joints_OP s1 = joints_OP s" "stamp s1 = stamp s"
    using cycle_prologue [OF assms(1,3,4)] by blast
  have j1: "joint_no s1 < NUM_JOINTS"
    using s1(3) assms(2) by simp
  obtain s2 where s2: "gate_or_fsa i s1 = Inr s2" "wf_node s2" "joint_no s2 < NUM_JOINTS"
      "bus s2 = bus s1 @ (if \<not> joints_OP s1 \<and> now_check i - stamp s1 \<ge> 10
                            then [master_reset, master_receive, domain_process] else [])"
      "stamp s2 = (if \<not> joints_OP s1 \<and> now_check i - stamp s1 \<ge> 10
                       then now_restart i else stamp s1)"
    using gate_or_fsa_spec [OF s1(2) j1 assms(3)] by blast
  show ?thesis
    using s1 s2
    by (simp add: cyclic_pdo_loop_def write_targets_eq [OF s2(2)] bus_defs wf_node_def)
qed

lemma startup_wf: "wf_node startup" "joint_no startup < NUM_JOINTS"
  by (simp_all add: startup_def wf_node_def NUM_JOINTS_def)

lemma timeout_input_wf: "wf_input timeout_input"
  by (simp add: timeout_input_def wf_input_def NUM_JOINTS_def)

section \<open>The operational gate\<close>

text \<open>
  C6. One call of the gate with the cursor on joint \<open>j\<close> looks at the report for joint \<open>j\<close>
  only; the cursor advances by one exactly when that joint reports operational, does not
  decrease otherwise, and wraps to 0 exactly when the call returns ready, which is when
  joint 5 is confirmed. Six calls from cursor 0 in which joints 0 to 5 report operational in
  turn return ready on the sixth call only and leave the cursor at 0.
\<close>

theorem operational_gate:
  assumes "wf_node s" "joint_no s = j" "j < NUM_JOINTS"
  shows "(\<exists>s'. check_slave_config_states slaves s = Inr (operational (slaves j) \<and> j = 5, s') \<and>
            joint_no s' = (if operational (slaves j) then (if j = 5 then 0 else j + 1) else j) \<and>
            (joint_no s \<le> joint_no s' \<or> (operational (slaves j) \<and> j = 5))) \<and>
         (slaves' j = slaves j \<longrightarrow>
            check_slave_config_states slaves' s = check_slave_config_states slaves s) \<and>
         (j = 0 \<and> operational (ra 0) \<and> operational (rb 1) \<and> operational (rc 2) \<and>
          operational (rd 3) \<and> operational (re 4) \<and> operational (rf 5) \<longrightarrow>
            (\<exists>s'. gate_run [ra, rb, rc, rd, re, rf] s =
                     Inr ([False, False, False, False, False, True], s') \<and> joint_no s' = 0))"
proof (intro conjI impI)
  show "\<exists>s'. check_slave_config_states slaves s = Inr (operational (slaves j) \<and> j = 5, s') \<and>
            joint_no s' = (if operational (slaves j) then (if j = 5 then 0 else j + 1) else j) \<and>
            (joint_no s \<le> joint_no s' \<or> (operational (slaves j) \<and> j = 5))"
    using gate_step [OF assms, of slaves] assms(2) by auto
next
  assume "slaves' j = slaves j"
  then show "check_slave_config_states slaves' s = check_slave_config_states slaves s"
    using assms(2) by (simp add: check_slave_config_states_def Let_def)
next
  assume a: "j = 0 \<and> operational (ra 0) \<and> operational (rb 1) \<and> operational (rc 2) \<and>
          operational (rd 3) \<and> operational (re 4) \<and> operational (rf 5)"
  have n: "(1::nat) < NUM_JOINTS" "(2::nat) < NUM_JOINTS" "(3::nat) < NUM_JOINTS"
      "(4::nat) < NUM_JOINTS" "(5::nat) < NUM_JOINTS"
    by (simp_all add: NUM_JOINTS_def)
  obtain s1 where s1: "check_slave_config_states ra s = Inr (False, s1)" "wf_node s1" "joint_no s1 = 1"
    using gate_step [OF assms, of ra] a by auto
  obtain s2 where s2: "check_slave_config_states rb s1 = Inr (False, s2)" "wf_node s2" "joint_no s2 = 2"
    using gate_step [OF s1(2,3) n(1), of rb] a by auto
  obtain s3 where s3: "check_slave_config_states rc s2 = Inr (False, s3)" "wf_node s3" "joint_no s3 = 3"
    using gate_step [OF s2(2,3) n(2), of rc] a by auto
  obtain s4 where s4: "check_slave_config_states rd s3 = Inr (False, s4)" "wf_node s4" "joint_no s4 = 4"
    using gate_step [OF s3(2,3) n(3), of rd] a by auto
  obtain s5 where s5: "check_slave_config_states re s4 = Inr (False, s5)" "wf_node s5" "joint_no s5 = 5"
    using gate_step [OF s4(2,3) n(4), of re] a by auto
  obtain s6 where s6: "check_slave_config_states rf s5 = Inr (True, s6)" "joint_no s6 = 0"
    using gate_step [OF s5(2,3) n(5), of rf] a by auto
  show "\<exists>s'. gate_run [ra, rb, rc, rd, re, rf] s =
                     Inr ([False, False, False, False, False, True], s') \<and> joint_no s' = 0"
    by (simp add: s1 s2 s3 s4 s5 s6)
qed

theorem operational_gate_witness:
  "wf_node startup \<and> joint_no startup = 0 \<and> 0 < NUM_JOINTS \<and>
   (\<exists>s'. check_slave_config_states all_operational startup = Inr (False, s') \<and> joint_no s' = 1) \<and>
   check_slave_config_states (all_operational(1 := none_operational 1)) startup =
     check_slave_config_states all_operational startup \<and>
   (\<exists>s'. gate_run [all_operational, all_operational, all_operational, all_operational,
                   all_operational, all_operational] startup =
            Inr ([False, False, False, False, False, True], s') \<and> joint_no s' = 0)"
proof -
  have h: "wf_node startup" "joint_no startup = 0" "0 < NUM_JOINTS"
    by (simp_all add: startup_def wf_node_def NUM_JOINTS_def)
  have a: "operational (all_operational k)" for k
    by (simp add: all_operational_def)
  show ?thesis
    using h a
      operational_gate [OF h, where slaves = all_operational
        and slaves' = "all_operational(1 := none_operational 1)"
        and ra = all_operational and rb = all_operational and rc = all_operational
        and rd = all_operational and re = all_operational and rf = all_operational]
    by simp
qed

section \<open>Bus calls of one cycle\<close>

text \<open>
  C4 as stated fails: in a cycle that starts before the gate reported ready and 10 seconds
  or more after the stamp, the master is reset and \<^verbatim>\<open>ecrt_master_receive\<close> is called a
  second time before the queue and the send.
\<close>

theorem receive_twice_counterexample:
  "map_sum id bus (cyclic_pdo_loop 1 timeout_input startup) =
     Inr [master_receive, domain_process, master_reset, master_receive, domain_process,
          domain_queue, master_send] \<and>
   count_list [master_receive, domain_process, master_reset, master_receive, domain_process,
          domain_queue, master_send] master_receive = 2"
  by (simp add: cyclic_pdo_loop_def housekeeping_def gate_or_fsa_def check_slave_config_states_def write_targets_def Let_def
      startup_def timeout_input_def none_operational_def bus_defs RCLCPP_INFO_def NUM_JOINTS_def
      read_joint_states_def)

text \<open>
  C4, amended. Every cycle calls receive first and queue then send last, each of the last
  two exactly once; receive is called exactly once, except in a cycle that starts with the
  gate not yet ready and at least 10 seconds after the stamp, where the master is reset and
  receive is called a second time between the first receive and the queue.
\<close>

theorem bus_calls_per_cycle:
  assumes "wf_node s" "joint_no s < NUM_JOINTS" "wf_input i" "0 < period"
  shows "\<exists>s'. cyclic_pdo_loop period i s = Inr s' \<and>
           bus s' = bus s @
             (if \<not> joints_OP s \<and> now_check i - stamp s \<ge> 10
              then [master_receive, domain_process, master_reset, master_receive, domain_process,
                    domain_queue, master_send]
              else [master_receive, domain_process, domain_queue, master_send])"
  using cyclic_pdo_loop_spec [OF assms] by auto

theorem bus_calls_per_cycle_witness:
  "wf_node startup \<and> joint_no startup < NUM_JOINTS \<and> wf_input timeout_input \<and> (0::nat) < 1 \<and>
   (\<exists>s'. cyclic_pdo_loop 1 timeout_input startup = Inr s' \<and>
      bus s' = [master_receive, domain_process, master_reset, master_receive, domain_process,
                domain_queue, master_send])"
proof -
  have p: "(0::nat) < 1" by simp
  have c: "\<not> joints_OP startup \<and> now_check timeout_input - stamp startup \<ge> 10" "bus startup = []"
    by (simp_all add: startup_def timeout_input_def)
  show ?thesis
    using startup_wf timeout_input_wf bus_calls_per_cycle [OF startup_wf timeout_input_wf p] c
    by simp
qed

lemma run_cycles_quiet:
  assumes "0 < period"
  shows "wf_node s \<Longrightarrow> joint_no s < NUM_JOINTS \<Longrightarrow>
     \<forall>i \<in> set is. wf_input i \<and> now_check i - stamp s < 10 \<Longrightarrow>
     \<exists>s'. run_cycles period is s = Inr s' \<and>
        count_list (bus s') master_reset = count_list (bus s) master_reset \<and> stamp s' = stamp s"
proof (induction "is" arbitrary: s)
  case Nil
  then show ?case by simp
next
  case (Cons i "is")
  obtain s1 where s1: "cyclic_pdo_loop period i s = Inr s1" "wf_node s1" "joint_no s1 < NUM_JOINTS"
      "bus s1 = bus s @ [master_receive, domain_process] @ [domain_queue, master_send]"
      "stamp s1 = stamp s"
    using cyclic_pdo_loop_spec [OF Cons.prems(1,2) _ assms, of i] Cons.prems(3) by auto
  obtain s' where "run_cycles period is s1 = Inr s'"
      "count_list (bus s') master_reset = count_list (bus s1) master_reset" "stamp s' = stamp s1"
    using Cons.IH [OF s1(2,3)] Cons.prems(3) s1(5) by auto
  then show ?case
    using s1 by simp
qed

text \<open>
  C7. A cycle resets the master (once) if and only if it starts with the gate not yet ready
  and the clock reads at least 10 seconds more than the stamp; the stamp is then restarted
  from the clock and is otherwise left alone. Over any run of cycles whose clock readings
  stay less than 10 seconds after the stamp, no reset occurs and the stamp is unchanged.
\<close>

theorem reset_once_per_window:
  assumes "wf_node s" "joint_no s < NUM_JOINTS" "0 < period" "wf_input i"
    and "\<forall>i \<in> set is. wf_input i"
  shows "(\<exists>s'. cyclic_pdo_loop period i s = Inr s' \<and>
            count_list (bus s') master_reset =
              count_list (bus s) master_reset +
                (if \<not> joints_OP s \<and> now_check i - stamp s \<ge> 10 then 1 else 0) \<and>
            stamp s' = (if \<not> joints_OP s \<and> now_check i - stamp s \<ge> 10
                        then now_restart i else stamp s)) \<and>
         ((\<forall>i \<in> set is. now_check i - stamp s < 10) \<longrightarrow>
            (\<exists>s'. run_cycles period is s = Inr s' \<and>
               count_list (bus s') master_reset = count_list (bus s) master_reset \<and>
               stamp s' = stamp s))"
proof (intro conjI impI)
  show "\<exists>s'. cyclic_pdo_loop period i s = Inr s' \<and>
            count_list (bus s') master_reset =
              count_list (bus s) master_reset +
                (if \<not> joints_OP s \<and> now_check i - stamp s \<ge> 10 then 1 else 0) \<and>
            stamp s' = (if \<not> joints_OP s \<and> now_check i - stamp s \<ge> 10
                        then now_restart i else stamp s)"
    using cyclic_pdo_loop_spec [OF assms(1,2,4,3)] by auto
next
  assume "\<forall>i \<in> set is. now_check i - stamp s < 10"
  then show "\<exists>s'. run_cycles period is s = Inr s' \<and>
               count_list (bus s') master_reset = count_list (bus s) master_reset \<and>
               stamp s' = stamp s"
    using run_cycles_quiet [OF assms(3,1,2), of "is"] assms(5) by simp
qed

theorem reset_once_per_window_witness:
  "wf_node startup \<and> joint_no startup < NUM_JOINTS \<and> (0::nat) < 1 \<and> wf_input timeout_input \<and>
   wf_input quiet_input \<and>
   (\<exists>s'. cyclic_pdo_loop 1 timeout_input startup = Inr s' \<and>
      count_list (bus s') master_reset = 1 \<and> stamp s' = 10) \<and>
   now_check quiet_input - stamp startup < 10 \<and>
   (\<exists>s'. run_cycles 1 [quiet_input, quiet_input] startup = Inr s' \<and>
      count_list (bus s') master_reset = 0 \<and> stamp s' = 0)"
proof -
  have p: "(0::nat) < 1" by simp
  have q: "\<forall>i \<in> set [quiet_input, quiet_input]. wf_input i"
    by (simp add: quiet_input_def timeout_input_def wf_input_def NUM_JOINTS_def)
  have c: "\<not> joints_OP startup" "now_check timeout_input - stamp startup \<ge> 10"
      "bus startup = []" "stamp startup = 0" "now_restart timeout_input = 10"
      "now_check quiet_input - stamp startup < 10"
    by (simp_all add: startup_def timeout_input_def quiet_input_def)
  show ?thesis
    using startup_wf p timeout_input_wf q c
      reset_once_per_window [OF startup_wf p timeout_input_wf q]
    by simp
qed

section \<open>Steady state and logging\<close>

lemmas cycle_defs = cyclic_pdo_loop_def housekeeping_def read_joint_states_def gate_or_fsa_def
  state_transition_def pds_fsa_def check_slave_config_states_def write_targets_def Let_def
  bus_defs effect_defs NUM_JOINTS_def

lemma upt_joints: "[0..<6] = [0, 1, 2, 3, 4, 5]"
  by code_simp

text \<open>
  C3 fails on the code. In \<open>steady\<close> all six joints report OPERATION_ENABLED in every
  cycle, yet the first cycle leaves the target positions as they were, and so do the first
  five cycles together; only the sixth cycle, in which the cursor passes joint 5, writes
  the commands into the domain.
\<close>

theorem steady_state_targets_stale:
  "map_sum id targets_and_commands (cyclic_pdo_loop 1 steady_input steady) =
     Inr ([0, 0, 0, 0, 0, 0], [100, 200, 300, 400, 500, 600]) \<and>
   map_sum id targets_and_commands
     (run_cycles 1 [steady_input, steady_input, steady_input, steady_input, steady_input] steady) =
     Inr ([0, 0, 0, 0, 0, 0], [100, 200, 300, 400, 500, 600]) \<and>
   map_sum id targets_and_commands
     (run_cycles 1 [steady_input, steady_input, steady_input, steady_input, steady_input,
                    steady_input] steady) =
     Inr ([100, 200, 300, 400, 500, 600], [100, 200, 300, 400, 500, 600])"
  by (simp add: cycle_defs upt_joints steady_def steady_input_def startup_def targets_and_commands_def)

text \<open>
  The same for any steady-state cycle: while the cursor is not on the last joint, a cycle
  in which the joint under the cursor reports OPERATION_ENABLED moves the cursor on, leaves
  \<^verbatim>\<open>joints_op_enabled_\<close> false and writes no target position.
\<close>

lemma pds_fsa_operation_enabled:
  assumes "status_word (domain_pd s) ! joint_no s AND 0b01101111 = 0b00100111"
  shows "domain_pd (pds_fsa s) = domain_pd s" and "joint_no (pds_fsa s) = joint_no s + 1"
  using assms narrow_mask [OF assms]
  by (simp_all add: pds_fsa_def Let_def effect_defs)

lemma steady_cycle_skips_targets:
  assumes "wf_node s" "wf_input i" "0 < period" "joints_OP s" "joint_no s < 5"
    and "rx_status i ! joint_no s AND 0b01101111 = 0b00100111"
  shows "\<exists>s'. cyclic_pdo_loop period i s = Inr s' \<and>
           target_pos (domain_pd s') = target_pos (domain_pd s) \<and>
           joint_no s' = joint_no s + 1 \<and> \<not> joints_op_enabled s'"
proof -
  obtain s1 where s1: "housekeeping period (read_joint_states
            (ecrt_domain_process (ecrt_master_receive (rx_status i) (rx_actual i) s))) = Inr s1"
      "wf_node s1" "joint_no s1 = joint_no s"
      "status_word (domain_pd s1) = rx_status i"
      "target_pos (domain_pd s1) = target_pos (domain_pd s)"
      "joints_OP s1 = joints_OP s"
    using cycle_prologue [OF assms(1,2,3)] by blast
  have m: "status_word (domain_pd s1) ! joint_no s1 AND 0b01101111 = 0b00100111"
    using assms(6) s1(3,4) by simp
  have g: "gate_or_fsa i s1 = Inr ((pds_fsa s1)\<lparr>joints_op_enabled := False\<rparr>)"
    using assms(4,5) s1(3,6) pds_fsa_operation_enabled(2) [OF m]
    by (simp add: gate_or_fsa_def state_transition_def NUM_JOINTS_def)
  have w: "write_targets ((pds_fsa s1)\<lparr>joints_op_enabled := False\<rparr>) =
      (pds_fsa s1)\<lparr>joints_op_enabled := False\<rparr>"
    by (simp add: write_targets_def)
  have "cyclic_pdo_loop period i s =
      Inr (ecrt_master_send (ecrt_domain_queue ((pds_fsa s1)\<lparr>joints_op_enabled := False\<rparr>)))"
    by (simp add: cyclic_pdo_loop_def s1(1) g w)
  then show ?thesis
    using s1(3,5) pds_fsa_operation_enabled [OF m]
    by (simp add: bus_defs)
qed

text \<open>
  C8 fails on the code. With joint 0 already recorded as QUICK_STOP_ACTIVE and the status
  word still matching that row, a step logs the state again; the same for
  FAULT_REACTION_ACTIVE. The FAULT branch next to them, guarded by the comparison with the
  recorded state, logs nothing in the same situation.
\<close>

theorem quick_stop_logged_every_cycle:
  "driveState quick_stop_node ! 0 = QUICK_STOP_ACTIVE \<and> logger quick_stop_node = [] \<and>
   map_sum id state_and_log (state_transition quick_stop_node) =
     Inr (QUICK_STOP_ACTIVE, [Log INFO '' J%d State: Quick stop active'' [ArgInt 0]]) \<and>
   driveState fault_reaction_node ! 0 = FAULT_REACTION_ACTIVE \<and> logger fault_reaction_node = [] \<and>
   map_sum id state_and_log (state_transition fault_reaction_node) =
     Inr (FAULT_REACTION_ACTIVE, [Log INFO '' J%d State: Fault reaction active'' [ArgInt 0]]) \<and>
   driveState fault_node ! 0 = FAULT \<and> logger fault_node = [] \<and>
   map_sum id state_and_log (state_transition fault_node) = Inr (FAULT, [])"
  by (simp add: cycle_defs quick_stop_node_def fault_reaction_node_def fault_node_def startup_def
      state_and_log_def)

text \<open>
  The six branches that compare with the recorded state first log nothing when the state is
  already the recorded one.
\<close>

lemma pds_fsa_edge_guarded:
  fixes s :: node
  defines "w \<equiv> status_word (domain_pd s) ! joint_no s"
  defines "d \<equiv> driveState s ! joint_no s"
  shows "w AND 0b01001111 = 0b00000000 \<Longrightarrow> d = NOT_READY \<Longrightarrow> logger (pds_fsa s) = logger s"
    and "w AND 0b01001111 = 0b01000000 \<Longrightarrow> d = SWITCH_ON_DISABLED \<Longrightarrow> logger (pds_fsa s) = logger s"
    and "w AND 0b01101111 = 0b00100001 \<Longrightarrow> d = READY \<Longrightarrow> logger (pds_fsa s) = logger s"
    and "w AND 0b01101111 = 0b00100011 \<Longrightarrow> d = SWITCHED_ON \<Longrightarrow> logger (pds_fsa s) = logger s"
    and "w AND 0b01101111 = 0b00100111 \<Longrightarrow> d = OPERATION_ENABLED \<Longrightarrow> logger (pds_fsa s) = logger s"
    and "w AND 0b01001111 = 0b00001000 \<Longrightarrow> d = FAULT \<Longrightarrow> logger (pds_fsa s) = logger s"
  using narrow_mask [of w "0b00100001"] narrow_mask [of w "0b00100011"]
    narrow_mask [of w "0b00100111"] narrow_mask [of w "0b00000111"]
  by (auto simp add: w_def d_def pds_fsa_def Let_def effect_defs)

text \<open>The two other branches log on every step, whatever state is recorded.\<close>

lemma pds_fsa_unguarded:
  fixes s :: node
  defines "w \<equiv> status_word (domain_pd s) ! joint_no s"
  shows "w AND 0b01101111 = 0b00000111 \<Longrightarrow>
           logger (pds_fsa s) =
             logger s @ [Log INFO '' J%d State: Quick stop active'' [ArgInt (int (joint_no s))]]"
    and "w AND 0b01001111 = 0b00001111 \<Longrightarrow>
           logger (pds_fsa s) =
             logger s @ [Log INFO '' J%d State: Fault reaction active'' [ArgInt (int (joint_no s))]]"
  using narrow_mask [of w "0b00100001"] narrow_mask [of w "0b00100011"]
    narrow_mask [of w "0b00100111"] narrow_mask [of w "0b00000111"]
  by (auto simp add: w_def pds_fsa_def Let_def effect_defs)

section \<open>The target position at the SWITCHED_ON transition\<close>

text \<open>
  C5 as stated fails: the target position is overwritten, but the message is logged with
  \<^verbatim>\<open>RCLCPP_ERROR\<close>; no entry of the cycle has the severity of a warning.
\<close>

theorem snap_logged_at_error_counterexample:
  "map_sum id (\<lambda>s. (target_pos (domain_pd s) ! 0, map level (logger s)))
      (cyclic_pdo_loop 1 switch_on_input switch_on_node) = Inr (1000, [INFO, ERROR]) \<and>
   WARN \<notin> set [INFO, ERROR]"
  by (simp add: cycle_defs switch_on_node_def switch_on_input_def startup_def)


lemma pds_fsa_switched_on:
  assumes "status_word (domain_pd s) ! joint_no s AND 0b01101111 = 0b00100011"
    and "driveState s ! joint_no s \<noteq> SWITCHED_ON"
    and "actual_pos (domain_pd s) ! joint_no s \<noteq> target_pos (domain_pd s) ! joint_no s"
  shows "pds_fsa s =
     s\<lparr>domain_pd := (domain_pd s)
          \<lparr>ctrl_word := (ctrl_word (domain_pd s))
             [joint_no s := (ctrl_word (domain_pd s) ! joint_no s AND 0b01111111) OR 0b00001111],
           target_pos := (target_pos (domain_pd s))
             [joint_no s := actual_pos (domain_pd s) ! joint_no s]\<rparr>,
        driveState := (driveState s)[joint_no s := SWITCHED_ON],
        logger := logger s @
          [Log INFO '' J%d State: Switched on'' [ArgInt (int (joint_no s))],
           Log ERROR ''target pos != current pos, fixing...\<newline>'' []]\<rparr>"
  using assms narrow_mask [OF assms(1)]
  by (simp add: pds_fsa_def Let_def effect_defs)

text \<open>
  C5, amended. In a cycle whose frame carries the SWITCHED_ON pattern for the joint under
  the cursor while another state is recorded for it, and whose actual position differs from
  the target position in the domain, the loop records SWITCHED_ON, overwrites the target
  position with the actual position before the queue and the send of that cycle (the one
  domain image handed to the queue and the one put on the wire in that cycle both carry the
  actual position as the target of the joint), and logs this with the severity of an error.
\<close>

theorem target_snapped_at_switched_on:
  assumes "wf_node s" "joint_no s = j" "j < NUM_JOINTS" "wf_input i" "0 < period"
    and "joints_OP s"
    and "rx_status i ! j AND 0b01101111 = 0b00100011"
    and "driveState s ! j \<noteq> SWITCHED_ON"
    and "rx_actual i ! j \<noteq> target_pos (domain_pd s) ! j"
  shows "\<exists>s'. cyclic_pdo_loop period i s = Inr s' \<and>
           driveState s' ! j = SWITCHED_ON \<and>
           target_pos (domain_pd s') ! j = rx_actual i ! j \<and>
           logger s' = logger s @
             [Log INFO '' J%d State: Switched on'' [ArgInt (int j)],
              Log ERROR ''target pos != current pos, fixing...\<newline>'' []] \<and>
           bus s' = bus s @ [master_receive, domain_process, domain_queue, master_send] \<and>
           (\<exists>pd. queued s' = queued s @ [pd] \<and> sent s' = sent s @ [pd] \<and>
                 pd = domain_pd s' \<and> target_pos pd ! j = rx_actual i ! j)"
proof -
  obtain s1 where s1: "housekeeping period (read_joint_states
            (ecrt_domain_process (ecrt_master_receive (rx_status i) (rx_actual i) s))) = Inr s1"
      "wf_node s1" "joint_no s1 = joint_no s" "bus s1 = bus s @ [master_receive, domain_process]"
      "status_word (domain_pd s1) = rx_status i" "actual_pos (domain_pd s1) = rx_actual i"
      "target_pos (domain_pd s1) = target_pos (domain_pd s)"
      "driveState s1 = driveState s" "joints_OP s1 = joints_OP s" "logger s1 = logger s"
      "queued s1 = queued s" "sent s1 = sent s"
    using cycle_prologue [OF assms(1,4,5)] by blast
  have f: "pds_fsa s1 =
     s1\<lparr>domain_pd := (domain_pd s1)
          \<lparr>ctrl_word := (ctrl_word (domain_pd s1))
             [joint_no s1 := (ctrl_word (domain_pd s1) ! joint_no s1 AND 0b01111111) OR 0b00001111],
           target_pos := (target_pos (domain_pd s1))
             [joint_no s1 := actual_pos (domain_pd s1) ! joint_no s1]\<rparr>,
        driveState := (driveState s1)[joint_no s1 := SWITCHED_ON],
        logger := logger s1 @
          [Log INFO '' J%d State: Switched on'' [ArgInt (int (joint_no s1))],
           Log ERROR ''target pos != current pos, fixing...\<newline>'' []]\<rparr>"
    using assms(2,7,8,9) s1 by (intro pds_fsa_switched_on) simp_all
  have g: "gate_or_fsa i s1 = Inr ((pds_fsa s1)\<lparr>joints_op_enabled := False\<rparr>)"
    using assms(2,3,6) s1(3,9) by (simp add: gate_or_fsa_def state_transition_def f)
  have w: "write_targets ((pds_fsa s1)\<lparr>joints_op_enabled := False\<rparr>) =
      (pds_fsa s1)\<lparr>joints_op_enabled := False\<rparr>"
    by (simp add: write_targets_def)
  have "cyclic_pdo_loop period i s =
      Inr (ecrt_master_send (ecrt_domain_queue ((pds_fsa s1)\<lparr>joints_op_enabled := False\<rparr>)))"
    by (simp add: cyclic_pdo_loop_def s1(1) g w)
  then show ?thesis
    using assms(1,2,3) s1(2-)
    by (simp add: f bus_defs wf_node_def)
qed

theorem target_snapped_at_switched_on_witness:
  "wf_node switch_on_node \<and> joint_no switch_on_node = 0 \<and> 0 < NUM_JOINTS \<and>
   wf_input switch_on_input \<and> (0::nat) < 1 \<and> joints_OP switch_on_node \<and>
   rx_status switch_on_input ! 0 AND 0b01101111 = 0b00100011 \<and>
   driveState switch_on_node ! 0 \<noteq> SWITCHED_ON \<and>
   rx_actual switch_on_input ! 0 \<noteq> target_pos (domain_pd switch_on_node) ! 0 \<and>
   (\<exists>s'. cyclic_pdo_loop 1 switch_on_input switch_on_node = Inr s' \<and>
      driveState s' ! 0 = SWITCHED_ON \<and> target_pos (domain_pd s') ! 0 = 1000 \<and>
      logger s' =
        [Log INFO '' J%d State: Switched on'' [ArgInt 0],
         Log ERROR ''target pos != current pos, fixing...\<newline>'' []] \<and>
      bus s' = [master_receive, domain_process, domain_queue, master_send] \<and>
      (\<exists>pd. queued s' = [pd] \<and> sent s' = [pd] \<and> pd = domain_pd s' \<and>
            target_pos pd ! 0 = 1000))"
proof -
  have h: "wf_node switch_on_node" "joint_no switch_on_node = 0" "0 < NUM_JOINTS"
      "wf_input switch_on_input" "(0::nat) < 1" "joints_OP switch_on_node"
      "rx_status switch_on_input ! 0 AND 0b01101111 = 0b00100011"
      "driveState switch_on_node ! 0 \<noteq> SWITCHED_ON"
      "rx_actual switch_on_input ! 0 \<noteq> target_pos (domain_pd switch_on_node) ! 0"
    by (simp_all add: switch_on_node_def switch_on_input_def startup_def wf_node_def
        wf_input_def NUM_JOINTS_def)
  have v: "rx_actual switch_on_input ! 0 = 1000" "logger switch_on_node = []"
      "bus switch_on_node = []" "queued switch_on_node = []" "sent switch_on_node = []"
    by (simp_all add: switch_on_node_def switch_on_input_def startup_def)
  show ?thesis
    using h target_snapped_at_switched_on [OF h] by (simp add: v)
qed

section \<open>The unit converter\<close>

lemma abs_int32_min: "abs_int32 (- 2147483648) = - 2147483648"
  by (simp add: abs_int32_def)

lemma sint_min: "sint (- 2147483648 :: int32_t) = - 2147483648"
  by simp

lemma not_pos_min: "\<not> 0 <s (- 2147483648 :: int32_t)"
  by (simp add: word_sless_alt)

lemma ne_scaled:
  fixes scale :: real
  assumes "k \<noteq> (- 2147483648 :: int)"
  shows "scale \<noteq> 0 \<longrightarrow> - 2147483648 * scale \<noteq> real_of_int k * scale"
proof
  assume s: "scale \<noteq> 0"
  show "- 2147483648 * scale \<noteq> real_of_int k * scale"
  proof
    assume "- 2147483648 * scale = real_of_int k * scale"
    then have "real_of_int (- 2147483648) * scale = real_of_int k * scale"
      by simp
    with s have "real_of_int (- 2147483648) = real_of_int k"
      using mult_right_cancel [of scale "real_of_int (- 2147483648)" "real_of_int k"] by blast
    then have "k = - 2147483648"
      by (simp only: of_int_eq_iff)
    with assms show False by simp
  qed
qed

text \<open>
  C2 fails on the code at the smallest 32-bit value. For every \<open>MAX_COUNT\<close> that fits a
  32-bit integer, \<^verbatim>\<open>abs(counts)\<close> is negative there, the test for folding fails, and
  the converter returns \<open>-2147483648 * scale\<close>, not the folded value of the claim, whose
  magnitude is at most \<open>MAX_COUNT * scale\<close>.
\<close>

theorem int_min_is_not_folded:
  assumes "0 < M" "M < 2147483648"
  shows "convert_count_to_rad M scale (- 2147483648) = Inr (- 2147483648 * scale) \<and>
         (scale \<noteq> 0 \<longrightarrow>
            - 2147483648 * scale \<noteq> real_of_int (- (M - 2147483648 mod M)) * scale)"
proof -
  have "0 \<le> 2147483648 mod M" "2147483648 mod M < M"
    using assms(1) by simp_all
  then have "- (M - 2147483648 mod M) \<noteq> - 2147483648"
    using assms(2) by linarith
  then have "scale \<noteq> 0 \<longrightarrow>
      - 2147483648 * scale \<noteq> real_of_int (- (M - 2147483648 mod M)) * scale"
    by (rule ne_scaled)
  moreover have "convert_count_to_rad M scale (- 2147483648) = Inr (- 2147483648 * scale)"
    using assms
    by (simp add: convert_count_to_rad_def abs_int32_min not_pos_min COUNT_TO_RAD_def)
  ultimately show ?thesis
    by (simp del: of_int_minus of_int_diff)
qed

theorem int_min_is_not_folded_witness:
  "(0::int) < 524288 \<and> (524288::int) < 2147483648 \<and>
   convert_count_to_rad 524288 1 (- 2147483648) = Inr (- 2147483648) \<and>
   (- 2147483648 :: real) \<noteq> - 524288"
  using int_min_is_not_folded [of 524288 1] by simp

text \<open>
  Everywhere else the converter does what C2 says: no folding up to \<open>MAX_COUNT\<close> in
  magnitude, the fold beyond it; and one count past the boundary gives the value of one
  count before it.
\<close>

lemma sint_abs_int32:
  fixes c :: int32_t
  assumes "sint c \<noteq> - 2147483648"
  shows "sint (abs_int32 c) = \<bar>sint c\<bar>"
proof (cases "c <s 0")
  case True
  have "- 2147483648 \<le> sint c" "sint c < 2147483648"
    using sint_ge [of c] sint_lt [of c] by simp_all
  then have "sint (- c) = - sint c"
    using assms by (simp add: sint_word_ariths signed_take_bit_int_eq_self)
  then show ?thesis
    using True by (simp add: abs_int32_def word_sless_alt)
next
  case False
  then show ?thesis
    by (simp add: abs_int32_def word_sless_alt)
qed

lemma convert_count_to_rad_folds:
  fixes c :: int32_t
  assumes "0 < M" "sint c \<noteq> - 2147483648"
  shows "convert_count_to_rad M scale c =
     Inr (if \<bar>sint c\<bar> \<le> M then real_of_int (sint c) * scale
          else real_of_int (sgn (sint c) * (M - \<bar>sint c\<bar> mod M)) * scale)"
  using assms sint_abs_int32 [OF assms(2)]
  by (auto simp add: convert_count_to_rad_def COUNT_TO_RAD_def c_rem_def word_sless_alt sgn_if)


lemma sint_word_of_int_small:
  "- 2147483648 \<le> k \<Longrightarrow> k < 2147483648 \<Longrightarrow> sint (word_of_int k :: int32_t) = k"
  by (simp add: sint_sbintrunc' signed_take_bit_int_eq_self)

lemma convert_count_to_rad_boundary:
  assumes "1 < M" "M + 1 < 2147483648"
  shows "convert_count_to_rad M scale (word_of_int (M + 1)) =
           convert_count_to_rad M scale (word_of_int (M - 1))"
proof -
  have a: "sint (word_of_int (M + 1) :: int32_t) = M + 1"
    using assms by (intro sint_word_of_int_small) simp_all
  have b: "sint (word_of_int (M - 1) :: int32_t) = M - 1"
    using assms by (intro sint_word_of_int_small) simp_all
  have m: "(M + 1) mod M = 1"
    using assms by simp
  have p: "0 < M"
    using assms by simp
  have "convert_count_to_rad M scale (word_of_int (M + 1)) = Inr (real_of_int (M - 1) * scale)"
    using assms by (simp only: convert_count_to_rad_folds [OF p] a m) simp
  moreover have "convert_count_to_rad M scale (word_of_int (M - 1)) =
      Inr (real_of_int (M - 1) * scale)"
    using assms by (simp only: convert_count_to_rad_folds [OF p] b) simp
  ultimately show ?thesis
    by simp
qed

section \<open>The command callback\<close>

lemma arm_cmd_loop_spec:
  "i \<le> length position \<Longrightarrow> i \<le> length cmds \<Longrightarrow>
     arm_cmd_loop R position i cmds =
       (if length position \<le> length cmds
        then Inr (take i cmds @ map R (drop i position) @ drop (length position) cmds)
        else Inl OutOfBounds)"
proof (induction R position i cmds rule: arm_cmd_loop.induct)
  case (1 R position i cmds)
  show ?case
  proof (cases "i < length position")
    case False
    then have "i = length position"
      using "1.prems" by simp
    then show ?thesis
      using "1.prems" by (subst arm_cmd_loop.simps) simp
  next
    case True
    show ?thesis
    proof (cases "i < length cmds")
      case False
      then show ?thesis
        using True "1.prems" by (subst arm_cmd_loop.simps) simp
    next
      case c: True
      have ih: "arm_cmd_loop R position (Suc i) (cmds[i := R (position ! i)]) =
          (if length position \<le> length cmds
           then Inr (take (Suc i) (cmds[i := R (position ! i)]) @
                     map R (drop (Suc i) position) @
                     drop (length position) (cmds[i := R (position ! i)]))
           else Inl OutOfBounds)"
        using "1.IH" [OF True c] True c by simp
      have t: "take (Suc i) (cmds[i := R (position ! i)]) = take i cmds @ [R (position ! i)]"
        using c by (simp add: take_Suc_conv_app_nth)
      have d: "drop (length position) (cmds[i := R (position ! i)]) = drop (length position) cmds"
        using True by simp
      have m: "map R (drop i position) = R (position ! i) # map R (drop (Suc i) position)"
        using True by (simp add: Cons_nth_drop_Suc [symmetric])
      show ?thesis
        using True c by (subst arm_cmd_loop.simps) (simp add: ih t d m del: arm_cmd_loop.simps)
    qed
  qed
qed

text \<open>
  C10. The callback writes \<open>RAD_TO_COUNT (position ! i)\<close> to index \<open>i\<close> for every index
  of the message and checks nothing against the number of joints: with at most six
  positions every write is inside the six-element container, with more than six the loop
  writes past its end.
\<close>

theorem arm_cmd_cb_bounds:
  assumes "length (joint_commands s) = NUM_JOINTS"
  shows "(length position \<le> NUM_JOINTS \<longrightarrow>
            arm_cmd_cb R position s =
              Inr (s\<lparr>joint_commands :=
                       map R position @ drop (length position) (joint_commands s)\<rparr>)) \<and>
         (NUM_JOINTS < length position \<longrightarrow> arm_cmd_cb R position s = Inl OutOfBounds)"
  using assms arm_cmd_loop_spec [of 0 position "joint_commands s" R]
  by (simp add: arm_cmd_cb_def)

theorem arm_cmd_cb_bounds_witness:
  "length (joint_commands startup) = NUM_JOINTS \<and>
   arm_cmd_cb to_count [1, 2] startup =
     Inr (startup\<lparr>joint_commands := [1000, 2000, 0, 0, 0, 0]\<rparr>) \<and>
   arm_cmd_cb to_count [1, 2, 3, 4, 5, 6, 7] startup = Inl OutOfBounds"
proof -
  have h: "length (joint_commands startup) = NUM_JOINTS"
    by (simp add: startup_def NUM_JOINTS_def)
  have n: "length [1, 2 :: real] \<le> NUM_JOINTS" "NUM_JOINTS < length [1, 2, 3, 4, 5, 6, 7 :: real]"
    by (simp_all add: NUM_JOINTS_def)
  have j: "joint_commands startup = [0, 0, 0, 0, 0, 0]"
    by (simp add: startup_def)
  show ?thesis
    using h n arm_cmd_cb_bounds [OF h, of "[1, 2]" to_count] arm_cmd_cb_bounds [OF h, of "[1, 2, 3, 4, 5, 6, 7]" to_count]
    by (simp add: j to_count_def)
qed


end
